theory Spec2Isabelle
  imports Main "HOL-Library.Log_Nat" "HOL-Library.AList"
begin

section \<open>Strings\<close>

text \<open>
  A JavaScript string is modelled by its UTF-8 bytes (\<open>string\<close>), so that
  \<open>Buffer.from(s, "utf8")\<close> and \<open>buf.toString("utf8")\<close> are the identity (the strings
  this tool serialises are well-formed). \<open>trim\<close> and \<open>toLowerCase\<close> are modelled on
  ASCII: the white space stripped is TAB, LF, VT, FF, CR and SPACE, and only the letters
  A to Z are lowered.
\<close>

definition is_space :: "char \<Rightarrow> bool" where
  "is_space c = (c \<in> set [CHR 0x09, CHR 0x0A, CHR 0x0B, CHR 0x0C, CHR 0x0D, CHR '' ''])"

definition trimStart :: "string \<Rightarrow> string" where
  "trimStart s = dropWhile is_space s"

definition trimEnd :: "string \<Rightarrow> string" where
  "trimEnd s = rev (dropWhile is_space (rev s))"

definition trim :: "string \<Rightarrow> string" where
  "trim s = trimEnd (trimStart s)"

definition lower_char :: "char \<Rightarrow> char" where
  "lower_char c =
     (if 65 \<le> (of_char c :: nat) \<and> (of_char c :: nat) \<le> 90
      then char_of ((of_char c :: nat) + 32) else c)"

definition toLowerCase :: "string \<Rightarrow> string" where
  "toLowerCase s = map lower_char s"

definition is_digit :: "char \<Rightarrow> bool" where
  "is_digit c = (48 \<le> (of_char c :: nat) \<and> (of_char c :: nat) \<le> 57)"

definition digit_val :: "char \<Rightarrow> int" where
  "digit_val c = of_char c - 48"

definition digits_val :: "string \<Rightarrow> int" where
  "digits_val ds = foldl (\<lambda>n c. 10 * n + digit_val c) 0 ds"

section \<open>Numbers\<close>

text \<open>
  A JavaScript number is an IEEE 754 binary64 value: \<open>NaN\<close>, an infinity, or a finite
  value, carried here as the rational it denotes. Every arithmetic operation computes the
  exact result and rounds it with \<open>fl\<close> to the nearest binary64 value, ties to even,
  overflowing to an infinity, as IEEE 754 prescribes. Negative zero is identified with
  zero: none of the functions modelled below can tell them apart (no division by a zero
  is reached, and JSON.stringify prints both as 0).
\<close>

datatype js_number = NaN | PosInf | NegInf | Fin rat

text \<open>\<open>ilog2 x\<close> is the binary exponent of a positive rational: the integer \<open>e\<close> with
  \<open>2^e \<le> x < 2^(e+1)\<close>.\<close>

definition ilog2 :: "rat \<Rightarrow> int" where
  "ilog2 x =
     (let (a, b) = quotient_of x; e = bitlen a - bitlen b
      in if 2 powi e \<le> x then e else e - 1)"

definition round_half_even :: "rat \<Rightarrow> int" where
  "round_half_even x =
     (let n = \<lfloor>x\<rfloor>; r = x - of_int n
      in if r < 1 / 2 then n
         else if 1 / 2 < r then n + 1
         else if even n then n else n + 1)"

definition double_limit :: rat where
  "double_limit = 2 powi 1024"

definition fl :: "rat \<Rightarrow> js_number" where
  "fl x =
     (if x = 0 then Fin 0
      else
        let e = max (ilog2 \<bar>x\<bar>) (- 1022);
            q = 2 powi (e - 52);
            r = of_int (round_half_even (\<bar>x\<bar> / q)) * q
        in if double_limit \<le> r then (if 0 < x then PosInf else NegInf)
           else Fin (sgn x * r))"

text \<open>The finite binary64 values: \<open>m * 2^e\<close> with \<open>|m| < 2^53\<close> and \<open>e \<ge> -1074\<close>,
  below \<open>2^1024\<close> in magnitude.\<close>

definition is_double :: "rat \<Rightarrow> bool" where
  "is_double x \<longleftrightarrow>
     (\<exists>m e. x = of_int m * 2 powi e \<and> \<bar>m\<bar> < 2 ^ 53 \<and> - 1074 \<le> e) \<and> \<bar>x\<bar> < double_limit"

definition isFinite :: "js_number \<Rightarrow> bool" where
  "isFinite x = (case x of Fin _ \<Rightarrow> True | _ \<Rightarrow> False)"

fun js_lt :: "js_number \<Rightarrow> js_number \<Rightarrow> bool" where
  "js_lt NaN _ = False"
| "js_lt _ NaN = False"
| "js_lt PosInf _ = False"
| "js_lt NegInf NegInf = False"
| "js_lt NegInf _ = True"
| "js_lt (Fin a) PosInf = True"
| "js_lt (Fin a) NegInf = False"
| "js_lt (Fin a) (Fin b) = (a < b)"

definition js_le :: "js_number \<Rightarrow> js_number \<Rightarrow> bool" where
  "js_le a b = (a \<noteq> NaN \<and> b \<noteq> NaN \<and> \<not> js_lt b a)"

definition js_gt :: "js_number \<Rightarrow> js_number \<Rightarrow> bool" where
  "js_gt a b = js_lt b a"

definition js_ge :: "js_number \<Rightarrow> js_number \<Rightarrow> bool" where
  "js_ge a b = js_le b a"

fun js_neg :: "js_number \<Rightarrow> js_number" where
  "js_neg NaN = NaN"
| "js_neg PosInf = NegInf"
| "js_neg NegInf = PosInf"
| "js_neg (Fin a) = Fin (- a)"

fun js_add :: "js_number \<Rightarrow> js_number \<Rightarrow> js_number" where
  "js_add NaN _ = NaN"
| "js_add _ NaN = NaN"
| "js_add PosInf NegInf = NaN"
| "js_add NegInf PosInf = NaN"
| "js_add PosInf _ = PosInf"
| "js_add NegInf _ = NegInf"
| "js_add (Fin a) PosInf = PosInf"
| "js_add (Fin a) NegInf = NegInf"
| "js_add (Fin a) (Fin b) = fl (a + b)"

definition js_sub :: "js_number \<Rightarrow> js_number \<Rightarrow> js_number" where
  "js_sub a b = js_add a (js_neg b)"

fun js_mul :: "js_number \<Rightarrow> js_number \<Rightarrow> js_number" where
  "js_mul NaN _ = NaN"
| "js_mul _ NaN = NaN"
| "js_mul (Fin a) (Fin b) = fl (a * b)"
| "js_mul (Fin a) PosInf = (if a = 0 then NaN else if 0 < a then PosInf else NegInf)"
| "js_mul (Fin a) NegInf = (if a = 0 then NaN else if 0 < a then NegInf else PosInf)"
| "js_mul PosInf (Fin b) = (if b = 0 then NaN else if 0 < b then PosInf else NegInf)"
| "js_mul NegInf (Fin b) = (if b = 0 then NaN else if 0 < b then NegInf else PosInf)"
| "js_mul PosInf PosInf = PosInf"
| "js_mul PosInf NegInf = NegInf"
| "js_mul NegInf PosInf = NegInf"
| "js_mul NegInf NegInf = PosInf"

text \<open>Division; a zero divisor is read as positive zero.\<close>

fun js_div :: "js_number \<Rightarrow> js_number \<Rightarrow> js_number" where
  "js_div NaN _ = NaN"
| "js_div _ NaN = NaN"
| "js_div (Fin a) (Fin b) =
     (if b = 0 then (if a = 0 then NaN else if 0 < a then PosInf else NegInf)
      else fl (a / b))"
| "js_div (Fin a) PosInf = Fin 0"
| "js_div (Fin a) NegInf = Fin 0"
| "js_div PosInf (Fin b) = (if 0 \<le> b then PosInf else NegInf)"
| "js_div NegInf (Fin b) = (if 0 \<le> b then NegInf else PosInf)"
| "js_div PosInf _ = NaN"
| "js_div NegInf _ = NaN"

text \<open>\<open>Math.round\<close>: the nearest integer, a tie going up. \<open>Math.abs\<close>.\<close>

fun Math_round :: "js_number \<Rightarrow> js_number" where
  "Math_round (Fin a) = Fin (of_int \<lfloor>a + 1 / 2\<rfloor>)"
| "Math_round x = x"

fun Math_abs :: "js_number \<Rightarrow> js_number" where
  "Math_abs (Fin a) = Fin \<bar>a\<bar>"
| "Math_abs NegInf = PosInf"
| "Math_abs x = x"

text \<open>
  Decimal literals. \<open>scan_decimal\<close> reads the longest prefix of the form
  \<open>digits [. digits] [e [+-] digits]\<close> or \<open>. digits [e [+-] digits]\<close> and returns its
  exact value with the rest of the text; an exponent part is taken only when complete.
\<close>

definition scan_exponent :: "string \<Rightarrow> int \<times> string" where
  "scan_exponent s =
     (case s of
        [] \<Rightarrow> (0, s)
      | c # r \<Rightarrow>
          if c = CHR ''e'' \<or> c = CHR ''E'' then
            (let (neg, r') =
                   (case r of
                      [] \<Rightarrow> (False, r)
                    | d # r'' \<Rightarrow>
                        if d = CHR ''-'' then (True, r'')
                        else if d = CHR ''+'' then (False, r'') else (False, r));
                 ds = takeWhile is_digit r'
             in if ds = [] then (0, s)
                else ((if neg then - digits_val ds else digits_val ds),
                      dropWhile is_digit r'))
          else (0, s))"

definition scan_decimal :: "string \<Rightarrow> (rat \<times> string) option" where
  "scan_decimal s =
     (let ip = takeWhile is_digit s;
          r1 = dropWhile is_digit s;
          dot = (r1 \<noteq> [] \<and> hd r1 = CHR ''.'');
          fp = (if dot then takeWhile is_digit (tl r1) else []);
          r2 = (if dot then dropWhile is_digit (tl r1) else r1)
      in if ip = [] \<and> fp = [] then None
         else
           let (ex, r3) = scan_exponent r2
           in Some (of_int (digits_val (ip @ fp)) / 10 ^ length fp * 10 powi ex, r3))"

text \<open>\<open>Number.parseFloat\<close>: leading white space is skipped, then the longest prefix that
  is a decimal literal (or a signed \<open>Infinity\<close>) is converted; \<open>NaN\<close> when there is none.\<close>

definition parseFloat :: "string \<Rightarrow> js_number" where
  "parseFloat s =
     (let t = trimStart s;
          neg = (t \<noteq> [] \<and> hd t = CHR ''-'');
          u = (if t \<noteq> [] \<and> (hd t = CHR ''-'' \<or> hd t = CHR ''+'') then tl t else t)
      in if take 8 u = ''Infinity'' then (if neg then NegInf else PosInf)
         else
           (case scan_decimal u of
              None \<Rightarrow> NaN
            | Some (v, _) \<Rightarrow> fl (if neg then - v else v)))"

section \<open>Number to string\<close>

function int_digits :: "int \<Rightarrow> string" where
  "int_digits n =
     (if n < 10 then [char_of (48 + n)] else int_digits (n div 10) @ [char_of (48 + n mod 10)])"
  by pat_completeness auto
termination
  by (relation "measure nat") auto

definition ilog10 :: "rat \<Rightarrow> int" where
  "ilog10 x =
     (let (a, b) = quotient_of x;
          e = int (length (int_digits a)) - int (length (int_digits b))
      in if 10 powi e \<le> x then e else e - 1)"

definition digit_candidate :: "rat \<Rightarrow> int \<Rightarrow> int option" where
  "digit_candidate x p =
     (let z = x / 10 powi p;
          lo = \<lfloor>z\<rfloor>;
          ok = (\<lambda>c. fl (of_int c * 10 powi p) = Fin x)
      in if ok lo \<and> ok (lo + 1) then Some (round_half_even z)
         else if ok lo then Some lo
         else if ok (lo + 1) then Some (lo + 1)
         else None)"

function shortest_digits :: "rat \<Rightarrow> int \<Rightarrow> int \<times> int" where
  "shortest_digits x p =
     (case digit_candidate x p of
        Some s \<Rightarrow> (s, p)
      | None \<Rightarrow> if p \<le> - 1074 then (\<lfloor>x / 10 powi p\<rfloor>, p) else shortest_digits x (p - 1))"
  by pat_completeness auto
termination
  by (relation "measure (\<lambda>(x, p). nat (p + 1074))") auto

function strip_zeros :: "int \<times> int \<Rightarrow> int \<times> int" where
  "strip_zeros (s, p) = (if s \<noteq> 0 \<and> s mod 10 = 0 then strip_zeros (s div 10, p + 1) else (s, p))"
  by pat_completeness auto
termination
  by (relation "measure (\<lambda>(s, p). nat \<bar>s\<bar>)") auto

definition format_digits :: "string \<Rightarrow> int \<Rightarrow> string" where
  "format_digits ds n =
     (let k = int (length ds) in
      if k \<le> n \<and> n \<le> 21 then ds @ replicate (nat (n - k)) (CHR ''0'')
      else if 0 < n \<and> n \<le> 21 then take (nat n) ds @ ''.'' @ drop (nat n) ds
      else if - 6 < n \<and> n \<le> 0 then ''0.'' @ replicate (nat (- n)) (CHR ''0'') @ ds
      else
        let e = n - 1;
            es = (if e < 0 then ''-'' else ''+'') @ int_digits \<bar>e\<bar>
        in if k = 1 then ds @ ''e'' @ es
           else [hd ds] @ ''.'' @ tl ds @ ''e'' @ es)"

definition positive_toString :: "rat \<Rightarrow> string" where
  "positive_toString x =
     (let (s, p) = strip_zeros (shortest_digits x (ilog10 x));
          ds = int_digits s
      in format_digits ds (p + int (length ds)))"

fun Number_toString :: "js_number \<Rightarrow> string" where
  "Number_toString NaN = ''NaN''"
| "Number_toString PosInf = ''Infinity''"
| "Number_toString NegInf = ''-Infinity''"
| "Number_toString (Fin x) =
     (if x = 0 then ''0''
      else if x < 0 then ''-'' @ positive_toString (- x)
      else positive_toString x)"





section \<open>JSON\<close>

datatype json =
    JNull
  | JBool bool
  | JNumber js_number
  | JString string
  | JArray "json list"
  | JObject "(string \<times> json) list"

definition hex_char :: "nat \<Rightarrow> char" where
  "hex_char d = (if d < 10 then char_of (48 + d) else char_of (87 + d))"

definition quote_char :: "char \<Rightarrow> string" where
  "quote_char c =
     (let n = (of_char c :: nat) in
      if n = 0x22 then [CHR 0x5C, CHR 0x22]
      else if n = 0x5C then [CHR 0x5C, CHR 0x5C]
      else if n = 0x08 then [CHR 0x5C, CHR ''b'']
      else if n = 0x0C then [CHR 0x5C, CHR ''f'']
      else if n = 0x0A then [CHR 0x5C, CHR ''n'']
      else if n = 0x0D then [CHR 0x5C, CHR ''r'']
      else if n = 0x09 then [CHR 0x5C, CHR ''t'']
      else if n < 0x20 then
        [CHR 0x5C, CHR ''u'', CHR ''0'', CHR ''0'', hex_char (n div 16), hex_char (n mod 16)]
      else [c])"

definition QuoteJSONString :: "string \<Rightarrow> string" where
  "QuoteJSONString s = CHR 0x22 # concat (map quote_char s) @ [CHR 0x22]"

fun join :: "string \<Rightarrow> string list \<Rightarrow> string" where
  "join sep [] = []"
| "join sep [x] = x"
| "join sep (x # y # ys) = x @ sep @ join sep (y # ys)"

fun JSON_stringify :: "json \<Rightarrow> string" where
  "JSON_stringify JNull = ''null''"
| "JSON_stringify (JBool b) = (if b then ''true'' else ''false'')"
| "JSON_stringify (JNumber x) = (if isFinite x then Number_toString x else ''null'')"
| "JSON_stringify (JString s) = QuoteJSONString s"
| "JSON_stringify (JArray xs) = ''['' @ join '','' (map JSON_stringify xs) @ '']''"
| "JSON_stringify (JObject kvs) =
     ''{'' @ join '','' (map (\<lambda>(k, v). QuoteJSONString k @ '':'' @ JSON_stringify v) kvs) @ ''}''"

definition is_json_ws :: "char \<Rightarrow> bool" where
  "is_json_ws c = (c = CHR '' '' \<or> c = CHR 0x09 \<or> c = CHR 0x0A \<or> c = CHR 0x0D)"

definition skip_ws :: "string \<Rightarrow> string" where
  "skip_ws s = dropWhile is_json_ws s"

definition hex_val :: "char \<Rightarrow> nat option" where
  "hex_val c =
     (let n = (of_char c :: nat) in
      if 48 \<le> n \<and> n \<le> 57 then Some (n - 48)
      else if 97 \<le> n \<and> n \<le> 102 then Some (n - 87)
      else if 65 \<le> n \<and> n \<le> 70 then Some (n - 55)
      else None)"

definition parse_hex4 :: "string \<Rightarrow> nat option" where
  "parse_hex4 s =
     (case s of
        a # b # c # d # r \<Rightarrow>
          (case (hex_val a, hex_val b, hex_val c, hex_val d) of
             (Some x, Some y, Some z, Some w) \<Rightarrow> Some (((x * 16 + y) * 16 + z) * 16 + w)
           | _ \<Rightarrow> None)
      | _ \<Rightarrow> None)"

definition utf8_encode :: "nat \<Rightarrow> string" where
  "utf8_encode u =
     (if u < 0x80 then [char_of u]
      else if u < 0x800 then [char_of (0xC0 + u div 64), char_of (0x80 + u mod 64)]
      else if u < 0x10000 then
        [char_of (0xE0 + u div 4096), char_of (0x80 + (u div 64) mod 64), char_of (0x80 + u mod 64)]
      else
        [char_of (0xF0 + u div 262144), char_of (0x80 + (u div 4096) mod 64),
         char_of (0x80 + (u div 64) mod 64), char_of (0x80 + u mod 64)])"

definition simple_escape :: "char \<Rightarrow> char option" where
  "simple_escape e =
     (if e = CHR 0x22 then Some (CHR 0x22)
      else if e = CHR 0x5C then Some (CHR 0x5C)
      else if e = CHR ''/'' then Some (CHR ''/'')
      else if e = CHR ''b'' then Some (CHR 0x08)
      else if e = CHR ''f'' then Some (CHR 0x0C)
      else if e = CHR ''n'' then Some (CHR 0x0A)
      else if e = CHR ''r'' then Some (CHR 0x0D)
      else if e = CHR ''t'' then Some (CHR 0x09)
      else None)"

text \<open>The low surrogate that completes a pair: \<open>hi\<close> is a high surrogate and the text goes
  on with the escape of a low surrogate.\<close>

definition low_surrogate_after :: "nat \<Rightarrow> string \<Rightarrow> nat option" where
  "low_surrogate_after hi r =
     (if 0xD800 \<le> hi \<and> hi \<le> 0xDBFF \<and> take 2 r = [CHR 0x5C, CHR ''u''] then
        (case parse_hex4 (drop 2 r) of
           Some lo \<Rightarrow> if 0xDC00 \<le> lo \<and> lo \<le> 0xDFFF then Some lo else None
         | None \<Rightarrow> None)
      else None)"

fun parse_string_body :: "string \<Rightarrow> (string \<times> string) option" where
  "parse_string_body [] = None"
| "parse_string_body (c # r) =
     (if c = CHR 0x22 then Some ([], r)
      else if c = CHR 0x5C then
        (case r of
           [] \<Rightarrow> None
         | e # r1 \<Rightarrow>
             if e = CHR ''u'' then
               (case parse_hex4 r1 of
                  None \<Rightarrow> None
                | Some hi \<Rightarrow>
                    (case low_surrogate_after hi (drop 4 r1) of
                       Some lo \<Rightarrow>
                         (case parse_string_body (drop 10 r1) of
                            None \<Rightarrow> None
                          | Some (s, rest) \<Rightarrow>
                              Some (utf8_encode (0x10000 + (hi - 0xD800) * 0x400 + (lo - 0xDC00)) @ s,
                                    rest))
                     | None \<Rightarrow>
                         (case parse_string_body (drop 4 r1) of
                            None \<Rightarrow> None
                          | Some (s, rest) \<Rightarrow> Some (utf8_encode hi @ s, rest))))
             else
               (case simple_escape e of
                  None \<Rightarrow> None
                | Some ch \<Rightarrow>
                    (case parse_string_body r1 of
                       None \<Rightarrow> None
                     | Some (s, rest) \<Rightarrow> Some (ch # s, rest))))
      else if (of_char c :: nat) < 0x20 then None
      else
        (case parse_string_body r of
           None \<Rightarrow> None
         | Some (s, rest) \<Rightarrow> Some (c # s, rest)))"

definition scan_json_exponent :: "string \<Rightarrow> (int \<times> string) option" where
  "scan_json_exponent s =
     (case s of
        [] \<Rightarrow> Some (0, s)
      | c # r \<Rightarrow>
          if c = CHR ''e'' \<or> c = CHR ''E'' then
            (let (neg, r') =
                   (case r of
                      [] \<Rightarrow> (False, r)
                    | d # r'' \<Rightarrow>
                        if d = CHR ''-'' then (True, r'')
                        else if d = CHR ''+'' then (False, r'') else (False, r));
                 ds = takeWhile is_digit r'
             in if ds = [] then None
                else Some ((if neg then - digits_val ds else digits_val ds),
                           dropWhile is_digit r'))
          else Some (0, s))"

text \<open>A JSON number without its sign: the exact value of the literal and the rest of the
  text. The integer part is \<open>0\<close> or starts with a non-zero digit; a fraction and an
  exponent need at least one digit.\<close>

definition parse_json_unsigned :: "string \<Rightarrow> (rat \<times> string) option" where
  "parse_json_unsigned u =
     (let ip = (if u \<noteq> [] \<and> hd u = CHR ''0'' then ''0'' else takeWhile is_digit u);
          r1 = drop (length ip) u;
          dot = (r1 \<noteq> [] \<and> hd r1 = CHR ''.'');
          fp = (if dot then takeWhile is_digit (tl r1) else []);
          r2 = (if dot then dropWhile is_digit (tl r1) else r1)
      in if ip = [] \<or> (dot \<and> fp = []) then None
         else
           (case scan_json_exponent r2 of
              None \<Rightarrow> None
            | Some (ex, r3) \<Rightarrow>
                Some (of_int (digits_val (ip @ fp)) / 10 ^ length fp * 10 powi ex, r3)))"

text \<open>A JSON number: the literal's value, rounded to binary64.\<close>

definition parse_json_number :: "string \<Rightarrow> (js_number \<times> string) option" where
  "parse_json_number s =
     (if s \<noteq> [] \<and> hd s = CHR ''-'' then
        (case parse_json_unsigned (tl s) of
           None \<Rightarrow> None
         | Some (v, r) \<Rightarrow> Some (fl (- v), r))
      else
        (case parse_json_unsigned s of
           None \<Rightarrow> None
         | Some (v, r) \<Rightarrow> Some (fl v, r)))"

lemma skip_ws_length: "skip_ws s = c # r \<Longrightarrow> length r < length s"
  unfolding skip_ws_def
  by (metis length_dropWhile_le length_Cons less_Suc_eq_le less_le_trans lessI not_less)

function parse_value :: "string \<Rightarrow> (json \<times> string) option"
  and parse_elements :: "string \<Rightarrow> json list \<Rightarrow> (json list \<times> string) option"
  and parse_members ::
    "string \<Rightarrow> (string \<times> json) list \<Rightarrow> ((string \<times> json) list \<times> string) option"
where
  "parse_value s =
     (case skip_ws s of
        [] \<Rightarrow> None
      | c # r \<Rightarrow>
          if c = CHR ''{'' then
            (case skip_ws r of
               [] \<Rightarrow> None
             | d # r' \<Rightarrow>
                 if d = CHR ''}'' then Some (JObject [], r')
                 else
                   (case parse_members r [] of
                      None \<Rightarrow> None
                    | Some (kvs, r'') \<Rightarrow> Some (JObject kvs, r'')))
          else if c = CHR ''['' then
            (case skip_ws r of
               [] \<Rightarrow> None
             | d # r' \<Rightarrow>
                 if d = CHR '']'' then Some (JArray [], r')
                 else
                   (case parse_elements r [] of
                      None \<Rightarrow> None
                    | Some (xs, r'') \<Rightarrow> Some (JArray xs, r'')))
          else if c = CHR 0x22 then
            (case parse_string_body r of
               None \<Rightarrow> None
             | Some (str, r') \<Rightarrow> Some (JString str, r'))
          else if c = CHR ''-'' \<or> is_digit c then
            (case parse_json_number (c # r) of
               None \<Rightarrow> None
             | Some (x, r') \<Rightarrow> Some (JNumber x, r'))
          else if take 4 (c # r) = ''true'' then Some (JBool True, drop 4 (c # r))
          else if take 5 (c # r) = ''false'' then Some (JBool False, drop 5 (c # r))
          else if take 4 (c # r) = ''null'' then Some (JNull, drop 4 (c # r))
          else None)"
| "parse_elements s acc =
     (case parse_value s of
        None \<Rightarrow> None
      | Some (v, r) \<Rightarrow>
          if length r < length s then
            (case skip_ws r of
               [] \<Rightarrow> None
             | d # r' \<Rightarrow>
                 if d = CHR '','' then parse_elements r' (acc @ [v])
                 else if d = CHR '']'' then Some (acc @ [v], r')
                 else None)
          else None)"
| "parse_members s acc =
     (case skip_ws s of
        [] \<Rightarrow> None
      | q # r0 \<Rightarrow>
          if q = CHR 0x22 then
            (case parse_string_body r0 of
               None \<Rightarrow> None
             | Some (k, r1) \<Rightarrow>
                 (case skip_ws r1 of
                    [] \<Rightarrow> None
                  | col # r2 \<Rightarrow>
                      if col = CHR '':'' \<and> length r2 < length s then
                        (case parse_value r2 of
                           None \<Rightarrow> None
                         | Some (v, r3) \<Rightarrow>
                             if length r3 < length r2 then
                               (case skip_ws r3 of
                                  [] \<Rightarrow> None
                                | d # r4 \<Rightarrow>
                                    if d = CHR '','' then parse_members r4 (AList.update k v acc)
                                    else if d = CHR ''}'' then Some (AList.update k v acc, r4)
                                    else None)
                             else None)
                      else None))
          else None)"
  by pat_completeness auto
termination
  by (relation "measure (\<lambda>x. case x of
          Inl s \<Rightarrow> 2 * length s
        | Inr (Inl (s, acc)) \<Rightarrow> 2 * length s + 1
        | Inr (Inr (s, acc)) \<Rightarrow> 2 * length s + 1)")
     (auto dest: skip_ws_length)

definition JSON_parse :: "string \<Rightarrow> json option" where
  "JSON_parse s =
     (case parse_value s of
        None \<Rightarrow> None
      | Some (v, r) \<Rightarrow> if skip_ws r = [] then Some v else None)"

section \<open>Base64url\<close>

definition b64_char :: "nat \<Rightarrow> char" where
  "b64_char n =
     (if n < 26 then char_of (65 + n)
      else if n < 52 then char_of (71 + n)
      else if n < 62 then char_of (n - 4)
      else if n = 62 then CHR ''-'' else CHR ''_'')"

fun base64url_encode :: "string \<Rightarrow> string" where
  "base64url_encode [] = []"
| "base64url_encode [a] =
     (let x = (of_char a :: nat) in [b64_char (x div 4), b64_char (x mod 4 * 16)])"
| "base64url_encode [a, b] =
     (let x = (of_char a :: nat); y = (of_char b :: nat)
      in [b64_char (x div 4), b64_char (x mod 4 * 16 + y div 16), b64_char (y mod 16 * 4)])"
| "base64url_encode (a # b # c # r) =
     (let x = (of_char a :: nat); y = (of_char b :: nat); z = (of_char c :: nat)
      in [b64_char (x div 4), b64_char (x mod 4 * 16 + y div 16),
          b64_char (y mod 16 * 4 + z div 64), b64_char (z mod 64)] @ base64url_encode r)"

definition unbase64 :: "char \<Rightarrow> nat option" where
  "unbase64 c =
     (let n = (of_char c :: nat) in
      if 65 \<le> n \<and> n \<le> 90 then Some (n - 65)
      else if 97 \<le> n \<and> n \<le> 122 then Some (n - 71)
      else if 48 \<le> n \<and> n \<le> 57 then Some (n + 4)
      else if c = CHR ''-'' \<or> c = CHR ''+'' then Some 62
      else if c = CHR ''_'' \<or> c = CHR ''/'' then Some 63
      else None)"

fun decode_sextets :: "nat list \<Rightarrow> string" where
  "decode_sextets (a # b # c # d # r) =
     [char_of (a * 4 + b div 16), char_of (b mod 16 * 16 + c div 4), char_of (c mod 4 * 64 + d)]
       @ decode_sextets r"
| "decode_sextets [a, b, c] = [char_of (a * 4 + b div 16), char_of (b mod 16 * 16 + c div 4)]"
| "decode_sextets [a, b] = [char_of (a * 4 + b div 16)]"
| "decode_sextets _ = []"

definition base64url_decode :: "string \<Rightarrow> string" where
  "base64url_decode s =
     decode_sextets (List.map_filter unbase64 (takeWhile (\<lambda>c. c \<noteq> CHR ''='') s))"

section \<open>Approval token codec\<close>

datatype exn = Error string | SyntaxError

record crypto =
  sha256 :: "string \<Rightarrow> string"
  hmac_sha256 :: "string \<Rightarrow> string \<Rightarrow> string"

record MarketRef =
  id' :: "string option"
  slug :: "string option"
  question :: "string option"

record PendingOrder =
  action :: string
  createdAtMs :: js_number
  expiresAtMs :: js_number
  sessionKey :: "string option"
  market :: MarketRef
  tokenId :: string
  side :: string
  outcome :: "string option"
  price :: js_number
  size' :: js_number
  approxNotionalUsd' :: js_number

definition opt_member :: "string \<Rightarrow> string option \<Rightarrow> (string \<times> json) list" where
  "opt_member k v = (case v of None \<Rightarrow> [] | Some s \<Rightarrow> [(k, JString s)])"

definition PendingOrder_json :: "PendingOrder \<Rightarrow> json" where
  "PendingOrder_json p =
     JObject
       ([(''action'', JString (action p)),
         (''createdAtMs'', JNumber (createdAtMs p)),
         (''expiresAtMs'', JNumber (expiresAtMs p))]
        @ opt_member ''sessionKey'' (sessionKey p)
        @ [(''market'',
            JObject (opt_member ''id'' (id' (market p))
                     @ opt_member ''slug'' (slug (market p))
                     @ opt_member ''question'' (question (market p)))),
           (''tokenId'', JString (tokenId p)),
           (''side'', JString (side p))]
        @ opt_member ''outcome'' (outcome p)
        @ [(''price'', JNumber (price p)),
           (''size'', JNumber (size' p)),
           (''approxNotionalUsd'', JNumber (approxNotionalUsd' p))])"

definition string_member :: "(string \<times> json) list \<Rightarrow> string \<Rightarrow> string option" where
  "string_member obj k = (case map_of obj k of Some (JString s) \<Rightarrow> Some s | _ \<Rightarrow> None)"

definition number_member :: "(string \<times> json) list \<Rightarrow> string \<Rightarrow> js_number" where
  "number_member obj k = (case map_of obj k of Some (JNumber x) \<Rightarrow> x | _ \<Rightarrow> NaN)"

definition object_member :: "(string \<times> json) list \<Rightarrow> string \<Rightarrow> (string \<times> json) list" where
  "object_member obj k = (case map_of obj k of Some (JObject m) \<Rightarrow> m | _ \<Rightarrow> [])"

definition asPendingOrder :: "(string \<times> json) list \<Rightarrow> PendingOrder" where
  "asPendingOrder obj =
     \<lparr> action = (case string_member obj ''action'' of Some s \<Rightarrow> s | None \<Rightarrow> []),
       createdAtMs = number_member obj ''createdAtMs'',
       expiresAtMs = number_member obj ''expiresAtMs'',
       sessionKey = string_member obj ''sessionKey'',
       market =
         \<lparr> id' = string_member (object_member obj ''market'') ''id'',
           slug = string_member (object_member obj ''market'') ''slug'',
           question = string_member (object_member obj ''market'') ''question'' \<rparr>,
       tokenId = (case string_member obj ''tokenId'' of Some s \<Rightarrow> s | None \<Rightarrow> []),
       side = (case string_member obj ''side'' of Some s \<Rightarrow> s | None \<Rightarrow> []),
       outcome = string_member obj ''outcome'',
       price = number_member obj ''price'',
       size' = number_member obj ''size'',
       approxNotionalUsd' = number_member obj ''approxNotionalUsd'' \<rparr>"

fun split_on :: "char \<Rightarrow> string \<Rightarrow> string list" where
  "split_on c [] = [[]]"
| "split_on c (x # xs) =
     (if x = c then [] # split_on c xs
      else (case split_on c xs of p # ps \<Rightarrow> (x # p) # ps | [] \<Rightarrow> [[x]]))"

definition createTokenKey :: "crypto \<Rightarrow> string \<Rightarrow> string" where
  "createTokenKey cr privateKey = sha256 cr privateKey"

definition signToken :: "crypto \<Rightarrow> string \<Rightarrow> string \<Rightarrow> string" where
  "signToken cr payloadJson key = base64url_encode (hmac_sha256 cr key payloadJson)"

definition encodeResumeToken :: "crypto \<Rightarrow> PendingOrder \<Rightarrow> string \<Rightarrow> string" where
  "encodeResumeToken cr payload privateKey =
     (let payloadJson = JSON_stringify (PendingOrder_json payload);
          key = createTokenKey cr privateKey;
          sig = signToken cr payloadJson key;
          body = base64url_encode payloadJson
      in body @ ''.'' @ sig)"

definition decodeResumeToken :: "crypto \<Rightarrow> string \<Rightarrow> string \<Rightarrow> exn + PendingOrder" where
  "decodeResumeToken cr token privateKey =
     (let parts = split_on (CHR ''.'') token in
      if length parts \<noteq> 2 then Inl (Error ''Invalid token format'')
      else
        let body = parts ! 0;
            sig = parts ! 1;
            json = base64url_decode body;
            key = createTokenKey cr privateKey;
            expected = signToken cr json key
        in if length sig \<noteq> length expected \<or> sig \<noteq> expected
           then Inl (Error ''Invalid token signature'')
           else
             (case JSON_parse json of
                None \<Rightarrow> Inl SyntaxError
              | Some (JObject obj) \<Rightarrow> Inr (asPendingOrder obj)
              | Some _ \<Rightarrow> Inl (Error ''Invalid token payload'')))"
section \<open>Request parameters and plugin configuration\<close>

text \<open>A value of unknown type, as found in the raw tool parameters and the raw plugin
  configuration; a missing key reads as \<open>RUndefined\<close>.\<close>

datatype raw_value =
    RUndefined
  | RBool bool
  | RNumber js_number
  | RString string
  | RArray "raw_value list"
  | ROther

type_synonym raw_record = "string \<Rightarrow> raw_value"

text \<open>\<open>readStringParam\<close> with the default options (trim, empty not allowed): the
  optional and the required form (source lines 31-46).\<close>

definition readStringParam :: "raw_record \<Rightarrow> string \<Rightarrow> string" where
  "readStringParam params key = (case params key of RString raw \<Rightarrow> trim raw | _ \<Rightarrow> [])"

definition readStringParam_required :: "raw_record \<Rightarrow> string \<Rightarrow> exn + string" where
  "readStringParam_required params key =
     (case params key of
        RString raw \<Rightarrow> if trim raw = [] then Inl (Error (key @ '' required'')) else Inr (trim raw)
      | _ \<Rightarrow> Inl (Error (key @ '' required'')))"

text \<open>\<open>readNumberParam\<close> (source lines 48-70), without the \<open>integer\<close> option.\<close>

definition readNumberParam :: "raw_record \<Rightarrow> string \<Rightarrow> exn + js_number" where
  "readNumberParam params key =
     (case params key of
        RNumber x \<Rightarrow> if isFinite x then Inr x else Inl (Error (key @ '' required''))
      | RString raw \<Rightarrow>
          if trim raw \<noteq> [] \<and> isFinite (parseFloat (trim raw)) then Inr (parseFloat (trim raw))
          else Inl (Error (key @ '' required''))
      | _ \<Rightarrow> Inl (Error (key @ '' required'')))"

record PluginConfig =
  privateKeyEnvVar :: string
  signatureType :: nat
  funderAddress :: "string option"
  tradeEnabled :: bool
  maxNotionalUsd :: js_number
  allowedMarketSlugs :: "string list option"

definition normalizeEnvVarName :: "raw_value \<Rightarrow> string \<Rightarrow> string" where
  "normalizeEnvVarName v fallback =
     (case v of RString s \<Rightarrow> if trim s = [] then fallback else trim s | _ \<Rightarrow> fallback)"

text \<open>\<open>Number.parseInt(s, 10)\<close>, as far as \<open>normalizeSignatureType\<close> needs it: the
  integer when it is 0, 1 or 2.\<close>

definition parseInt10 :: "string \<Rightarrow> int option" where
  "parseInt10 s =
     (let t = trimStart s;
          neg = (t \<noteq> [] \<and> hd t = CHR ''-'');
          u = (if t \<noteq> [] \<and> (hd t = CHR ''-'' \<or> hd t = CHR ''+'') then tl t else t);
          ds = takeWhile is_digit u
      in if ds = [] then None else Some (if neg then - digits_val ds else digits_val ds))"

fun Math_trunc :: "js_number \<Rightarrow> js_number" where
  "Math_trunc (Fin a) = Fin (if 0 \<le> a then of_int \<lfloor>a\<rfloor> else of_int \<lceil>a\<rceil>)"
| "Math_trunc x = x"

definition normalizeSignatureType :: "raw_value \<Rightarrow> nat \<Rightarrow> nat" where
  "normalizeSignatureType v fallback =
     (let num =
            (case v of
               RNumber x \<Rightarrow> if isFinite x then Math_trunc x else NaN
             | RString s \<Rightarrow>
                 if trim s = [] then NaN
                 else (case parseInt10 (trim s) of Some n \<Rightarrow> Fin (of_int n) | None \<Rightarrow> NaN)
             | _ \<Rightarrow> NaN)
      in if num = Fin 0 then 0 else if num = Fin 1 then 1 else if num = Fin 2 then 2
         else fallback)"

definition normalizeNumber :: "raw_value \<Rightarrow> js_number \<Rightarrow> js_number" where
  "normalizeNumber v fallback =
     (let num =
            (case v of
               RNumber x \<Rightarrow> if isFinite x then x else NaN
             | RString s \<Rightarrow> if trim s = [] then NaN else parseFloat (trim s)
             | _ \<Rightarrow> NaN)
      in if isFinite num then num else fallback)"

definition normalizeBoolean :: "raw_value \<Rightarrow> bool \<Rightarrow> bool" where
  "normalizeBoolean v fallback = (case v of RBool b \<Rightarrow> b | _ \<Rightarrow> fallback)"

definition normalizeStringList :: "raw_value \<Rightarrow> string list option" where
  "normalizeStringList v =
     (case v of
        RArray xs \<Rightarrow>
          (let items =
                 filter (\<lambda>s. s \<noteq> [])
                   (map (\<lambda>entry. case entry of RString s \<Rightarrow> trim s | _ \<Rightarrow> []) xs)
           in if items \<noteq> [] then Some items else None)
      | RString s \<Rightarrow> if trim s \<noteq> [] then Some [trim s] else None
      | _ \<Rightarrow> None)"

fun Math_max :: "js_number \<Rightarrow> js_number \<Rightarrow> js_number" where
  "Math_max NaN _ = NaN"
| "Math_max _ NaN = NaN"
| "Math_max a b = (if js_lt a b then b else a)"

text \<open>\<open>resolvePluginConfig\<close> (source lines 237-261). The host names and the chain id
  only address the external services and are left out; a plugin configuration that is
  not a record reads as the empty record.\<close>

definition resolvePluginConfig :: "raw_record \<Rightarrow> PluginConfig" where
  "resolvePluginConfig raw =
     \<lparr> privateKeyEnvVar = normalizeEnvVarName (raw ''privateKeyEnvVar'') ''POLYMARKET_PRIVATE_KEY'',
       signatureType = normalizeSignatureType (raw ''signatureType'') 0,
       funderAddress =
         (case raw ''funderAddress'' of
            RString s \<Rightarrow> if trim s = [] then None else Some (trim s)
          | _ \<Rightarrow> None),
       tradeEnabled = normalizeBoolean (raw ''tradeEnabled'') False,
       maxNotionalUsd = Math_max (Fin 0) (normalizeNumber (raw ''maxNotionalUsd'') (Fin 25)),
       allowedMarketSlugs = normalizeStringList (raw ''allowedMarketSlugs'') \<rparr>"

text \<open>\<open>resolvePrivateKey\<close> (source lines 263-270) over the process environment.\<close>

definition resolvePrivateKey :: "(string \<Rightarrow> string option) \<Rightarrow> PluginConfig \<Rightarrow> string option" where
  "resolvePrivateKey env config =
     (let get = (\<lambda>name. trim (case env name of Some v \<Rightarrow> v | None \<Rightarrow> []));
          fromPrimary = get (privateKeyEnvVar config);
          fromFallback = get ''POLYMARKET_PRIVATE_KEY'';
          fromDocs = get ''PRIVATE_KEY'';
          raw = (if fromPrimary \<noteq> [] then fromPrimary
                 else if fromFallback \<noteq> [] then fromFallback else fromDocs)
      in if raw = [] then None
         else if take 2 raw = ''0x'' then Some raw else Some (''0x'' @ raw))"

section \<open>Outcome resolver\<close>

record GammaMarket =
  market_id :: "string option"
  market_slug :: "string option"
  market_question :: "string option"
  outcomes :: "string option"
  clobTokenIds :: "string option"

text \<open>\<open>parseJsonStringArray\<close> (source lines 307-319); \<open>None\<close> is a value that is not a
  string.\<close>

definition parseJsonStringArray :: "string option \<Rightarrow> string list option" where
  "parseJsonStringArray v =
     (case v of
        None \<Rightarrow> None
      | Some s \<Rightarrow>
          if trim s = [] then None
          else
            (case JSON_parse (trim s) of
               Some (JArray parsed) \<Rightarrow>
                 (let out = filter (\<lambda>e. e \<noteq> [])
                              (map (\<lambda>e. case e of JString x \<Rightarrow> x | _ \<Rightarrow> []) parsed)
                  in if out \<noteq> [] then Some out else None)
             | _ \<Rightarrow> None))"

definition normalizeOutcomeLabel :: "string \<Rightarrow> string" where
  "normalizeOutcomeLabel v = toLowerCase (trim v)"

text \<open>\<open>Array.prototype.findIndex\<close>.\<close>

fun findIndex :: "('a \<Rightarrow> bool) \<Rightarrow> 'a list \<Rightarrow> nat option" where
  "findIndex P [] = None"
| "findIndex P (x # xs) = (if P x then Some 0 else map_option Suc (findIndex P xs))"

text \<open>\<open>resolveOutcomeToken\<close> (source lines 325-354). An index read beyond the end of an
  array is \<open>undefined\<close> in JavaScript, hence the length tests.\<close>

definition resolveOutcomeToken ::
  "GammaMarket \<Rightarrow> string option \<Rightarrow> exn + (string \<times> string option)" where
  "resolveOutcomeToken mkt outcome' =
     (let tokens = (case parseJsonStringArray (clobTokenIds mkt) of Some ts \<Rightarrow> ts | None \<Rightarrow> []) in
      if tokens = [] then Inl (Error ''Market is missing clobTokenIds; cannot trade via CLOB'')
      else
        let outs = (case parseJsonStringArray (outcomes mkt) of Some os \<Rightarrow> os | None \<Rightarrow> []);
            normalizedOutcome =
              (case outcome' of
                 None \<Rightarrow> None
               | Some v \<Rightarrow> if v = [] then None else Some (normalizeOutcomeLabel v));
            given = (normalizedOutcome \<noteq> None \<and> normalizedOutcome \<noteq> Some [])
        in if given \<and> length outs = length tokens \<and> 0 < length outs then
             (case findIndex (\<lambda>v. Some (normalizeOutcomeLabel v) = normalizedOutcome) outs of
                Some idx \<Rightarrow> Inr (tokens ! idx, Some (outs ! idx))
              | None \<Rightarrow>
                  Inl (Error (''Unknown outcome: '' @ (case outcome' of Some v \<Rightarrow> v | None \<Rightarrow> []))))
           else if normalizedOutcome = Some ''yes'' then Inr (tokens ! 0, Some ''Yes'')
           else if normalizedOutcome = Some ''no'' \<and> 1 < length tokens then
             Inr (tokens ! 1, Some ''No'')
           else if \<not> given then
             Inr (tokens ! 0, (case outs of [] \<Rightarrow> None | v # _ \<Rightarrow> Some v))
           else Inl (Error ''Provide tokenId (or a resolvable outcome) to place an order''))"

section \<open>Safety gate\<close>

text \<open>\<open>approxNotionalUsd\<close> (source lines 377-381).\<close>

definition approxNotionalUsd :: "js_number \<Rightarrow> js_number \<Rightarrow> js_number" where
  "approxNotionalUsd p s = js_mul p s"

text \<open>\<open>isMultipleOfTick\<close> (source lines 477-482); the literal \<open>1e-9\<close> is the binary64
  value nearest to \<open>10^-9\<close>.\<close>

definition isMultipleOfTick :: "js_number \<Rightarrow> js_number \<Rightarrow> bool" where
  "isMultipleOfTick val tickSize =
     (if \<not> isFinite tickSize \<or> js_le tickSize (Fin 0) then True
      else
        let scaled = js_div val tickSize;
            rounded = Math_round scaled
        in js_lt (Math_abs (js_sub rounded scaled)) (fl (1 / 10 ^ 9)))"

text \<open>\<open>isAllowedMarket\<close> (source lines 369-375).\<close>

definition isAllowedMarket :: "PluginConfig \<Rightarrow> string option \<Rightarrow> bool" where
  "isAllowedMarket config marketSlug =
     (case allowedMarketSlugs config of
        None \<Rightarrow> True
      | Some allow \<Rightarrow>
          if allow = [] then True
          else
            let slug' = trim (case marketSlug of Some v \<Rightarrow> v | None \<Rightarrow> [])
            in if slug' = [] then False else list_ex (\<lambda>entry. trim entry = slug') allow)"

section \<open>External collaborators\<close>

datatype market_query = BySlug string | ById string

record order_args =
  arg_tokenID :: string
  arg_price :: js_number
  arg_size :: js_number
  arg_side_buy :: bool
  arg_tickSize :: string
  arg_negRisk :: bool

record post_response =
  orderID :: "string option"
  status :: "string option"

text \<open>
  The services the tool calls: the market data provider, the derivation of the API
  credentials for a private key (it yields the signer's address), and the order-matching
  client. Each call either throws or returns. The process environment and the clock
  (\<open>Date.now()\<close>, an integral time value) are read from the same record.
\<close>

record world =
  process_env :: "string \<Rightarrow> string option"
  Date_now :: int
  fetchMarket :: "market_query \<Rightarrow> exn + GammaMarket"
  createOrDeriveApiKey :: "string \<Rightarrow> exn + string"
  getTickSize :: "string \<Rightarrow> exn + string"
  getNegRisk :: "string \<Rightarrow> exn + bool"
  createAndPostOrder :: "order_args \<Rightarrow> exn + post_response"

datatype ext_call =
    CallFetchMarket market_query
  | CallCreateOrDeriveApiKey
  | CallGetTickSize string
  | CallGetNegRisk string
  | CallCreateAndPostOrder order_args

record ToolContext =
  sandboxed :: bool
  ctx_sessionKey :: "string option"

datatype error_type =
    sandboxed_error
  | missing_private_key
  | trading_disabled
  | market_required
  | market_not_allowed
  | notional_limit
  | expired
  | session_mismatch
  | unsupported
  | invalid_tick
  | thrown exn

datatype tool_result =
    Failure error_type
  | NeedsApproval PendingOrder string
  | Cancelled
  | Posted post_response

text \<open>\<open>resolveGammaMarket\<close> (source lines 426-441), with the call it makes.\<close>

definition resolveGammaMarket ::
  "world \<Rightarrow> string \<Rightarrow> string \<Rightarrow> (exn + GammaMarket) \<times> ext_call list" where
  "resolveGammaMarket w marketId marketSlug =
     (if marketSlug \<noteq> [] then (fetchMarket w (BySlug marketSlug), [CallFetchMarket (BySlug marketSlug)])
      else if marketId \<noteq> [] then (fetchMarket w (ById marketId), [CallFetchMarket (ById marketId)])
      else (Inl (Error ''marketSlug or marketId required''), []))"

text \<open>\<open>resolveClobClient\<close> (source lines 443-475): the API credentials are derived, then
  the funder address is the configured one, or the signer's for signature type 0.\<close>

definition resolveClobClient ::
  "world \<Rightarrow> PluginConfig \<Rightarrow> string \<Rightarrow> (exn + string) \<times> ext_call list" where
  "resolveClobClient w config privateKey =
     (case createOrDeriveApiKey w privateKey of
        Inl e \<Rightarrow> (Inl e, [CallCreateOrDeriveApiKey])
      | Inr signerAddress \<Rightarrow>
          (case (case funderAddress config of
                   Some f \<Rightarrow> Some f
                 | None \<Rightarrow> if signatureType config = 0 then Some signerAddress else None) of
             None \<Rightarrow>
               (Inl (Error ''Missing funderAddress for signatureType 1/2. Set plugins.entries.polymarket.config.funderAddress.''),
                [CallCreateOrDeriveApiKey])
           | Some f \<Rightarrow>
               if f = [] then
                 (Inl (Error ''Missing funderAddress for signatureType 1/2. Set plugins.entries.polymarket.config.funderAddress.''),
                  [CallCreateOrDeriveApiKey])
               else (Inr f, [CallCreateOrDeriveApiKey])))"

section \<open>Order staging: \<open>place_order\<close>\<close>

text \<open>Truthiness of an optional string and of a number.\<close>

definition truthy_string :: "string option \<Rightarrow> bool" where
  "truthy_string v = (v \<noteq> None \<and> v \<noteq> Some [])"

definition truthy_number :: "js_number \<Rightarrow> bool" where
  "truthy_number x = (x \<noteq> NaN \<and> x \<noteq> Fin 0)"

definition nonempty :: "string \<Rightarrow> string option" where
  "nonempty s = (if s = [] then None else Some s)"

text \<open>
  The part of the \<open>place_order\<close> branch after the instrument is resolved (source lines
  928-986): side, price and size are read and checked, the notional limit is applied, and
  the pending order is built and signed. A thrown error is \<open>Inl\<close>.
\<close>

definition stage_order ::
  "crypto \<Rightarrow> world \<Rightarrow> PluginConfig \<Rightarrow> ToolContext \<Rightarrow> raw_record \<Rightarrow> string \<Rightarrow>
   GammaMarket option \<Rightarrow> string \<Rightarrow> string \<Rightarrow> string option \<Rightarrow> string \<Rightarrow> exn + tool_result" where
  "stage_order cr w config ctx rawParams privateKey mkt marketSlug tokenId' resolvedOutcome outcome' =
     (case readStringParam_required rawParams ''side'' of
        Inl e \<Rightarrow> Inl e
      | Inr sideRaw \<Rightarrow>
          let side' = toLowerCase sideRaw in
          if side' \<noteq> ''buy'' \<and> side' \<noteq> ''sell'' then Inl (Error ''side must be buy or sell'')
          else
            (case readNumberParam rawParams ''price'' of
               Inl e \<Rightarrow> Inl e
             | Inr price' \<Rightarrow>
                 (case readNumberParam rawParams ''size'' of
                    Inl e \<Rightarrow> Inl e
                  | Inr sz \<Rightarrow>
                      if js_le price' (Fin 0) \<or> js_ge price' (Fin 1)
                      then Inl (Error ''price must be between 0 and 1 (exclusive)'')
                      else if js_le sz (Fin 0) then Inl (Error ''size must be > 0'')
                      else
                        let approx = approxNotionalUsd price' sz in
                        if js_gt (maxNotionalUsd config) (Fin 0) \<and> js_gt approx (maxNotionalUsd config)
                        then Inr (Failure notional_limit)
                        else
                          let now = Fin (of_int (Date_now w));
                              order =
                                \<lparr> action = ''place_order'',
                                  createdAtMs = now,
                                  expiresAtMs = js_add now (Fin 300000),
                                  sessionKey = ctx_sessionKey ctx,
                                  market =
                                    \<lparr> id' = (case mkt of Some m \<Rightarrow> market_id m | None \<Rightarrow> None),
                                      slug =
                                        (case (case mkt of Some m \<Rightarrow> market_slug m | None \<Rightarrow> None) of
                                           Some v \<Rightarrow> Some v
                                         | None \<Rightarrow> Some marketSlug),
                                      question =
                                        (case mkt of Some m \<Rightarrow> market_question m | None \<Rightarrow> None) \<rparr>,
                                  tokenId = tokenId',
                                  side = side',
                                  outcome =
                                    (case resolvedOutcome of Some v \<Rightarrow> Some v | None \<Rightarrow> Some outcome'),
                                  price = price',
                                  size' = sz,
                                  approxNotionalUsd' = approx \<rparr>
                          in Inr (NeedsApproval order (encodeResumeToken cr order privateKey)))))"

text \<open>The \<open>place_order\<close> branch of \<open>execute\<close> (source lines 850-986), with the external
  calls it makes.\<close>

definition place_order_body ::
  "crypto \<Rightarrow> world \<Rightarrow> PluginConfig \<Rightarrow> ToolContext \<Rightarrow> raw_record \<Rightarrow>
   (exn + tool_result) \<times> ext_call list" where
  "place_order_body cr w config ctx rawParams =
     (if \<not> tradeEnabled config then (Inr (Failure trading_disabled), [])
      else if sandboxed ctx then (Inr (Failure sandboxed_error), [])
      else
        (case resolvePrivateKey (process_env w) config of
           None \<Rightarrow> (Inr (Failure missing_private_key), [])
         | Some privateKey \<Rightarrow>
             let tokenIdFromArgs = readStringParam rawParams ''tokenId'';
                 marketSlug = readStringParam rawParams ''marketSlug'';
                 marketId = readStringParam rawParams ''marketId'';
                 outcome' = readStringParam rawParams ''outcome'';
                 hasAllowlist =
                   (case allowedMarketSlugs config of Some l \<Rightarrow> l \<noteq> [] | None \<Rightarrow> False)
             in
               if marketSlug = [] \<and> marketId = [] \<and> hasAllowlist
               then (Inr (Failure market_required), [])
               else
                 let (fetched, calls) =
                       (if marketSlug \<noteq> [] \<or> marketId \<noteq> []
                        then (case resolveGammaMarket w marketId marketSlug of
                                (Inl e, cs) \<Rightarrow> (Inl e, cs)
                              | (Inr m, cs) \<Rightarrow> (Inr (Some m), cs))
                        else (Inr None, []))
                 in
                   (case fetched of
                      Inl e \<Rightarrow> (Inl e, calls)
                    | Inr mkt \<Rightarrow>
                        if (case mkt of
                              Some m \<Rightarrow> \<not> isAllowedMarket config (market_slug m)
                            | None \<Rightarrow> False)
                        then (Inr (Failure market_not_allowed), calls)
                        else
                          (case (if tokenIdFromArgs \<noteq> [] then Inr (tokenIdFromArgs, None)
                                 else
                                   (case mkt of
                                      Some m \<Rightarrow> resolveOutcomeToken m (Some outcome')
                                    | None \<Rightarrow>
                                        Inl (Error ''Provide tokenId (or provide marketSlug/marketId and outcome) to place an order''))) of
                             Inl e \<Rightarrow> (Inl e, calls)
                           | Inr (tokenId', resolvedOutcome) \<Rightarrow>
                               (stage_order cr w config ctx rawParams privateKey mkt marketSlug
                                  tokenId' resolvedOutcome outcome',
                                calls)))))"

section \<open>Order staging: \<open>resume\<close>\<close>

text \<open>
  The steps of an approved resume that talk to the order-matching client (source lines
  1050-1088): the client is resolved, the tick size fetched and the price re-validated
  against it, the risk flag fetched, and the order submitted.
\<close>

definition submit_order ::
  "world \<Rightarrow> PluginConfig \<Rightarrow> string \<Rightarrow> PendingOrder \<Rightarrow> (exn + tool_result) \<times> ext_call list" where
  "submit_order w config privateKey pending =
     (case resolveClobClient w config privateKey of
        (Inl e, cs) \<Rightarrow> (Inl e, cs)
      | (Inr _, cs) \<Rightarrow>
          (case getTickSize w (tokenId pending) of
             Inl e \<Rightarrow> (Inl e, cs @ [CallGetTickSize (tokenId pending)])
           | Inr tickSizeStr \<Rightarrow>
               let tickSizeNum = parseFloat tickSizeStr in
               if isFinite tickSizeNum \<and> \<not> isMultipleOfTick (price pending) tickSizeNum
               then (Inr (Failure invalid_tick), cs @ [CallGetTickSize (tokenId pending)])
               else
                 (case getNegRisk w (tokenId pending) of
                    Inl e \<Rightarrow>
                      (Inl e, cs @ [CallGetTickSize (tokenId pending), CallGetNegRisk (tokenId pending)])
                  | Inr negRisk \<Rightarrow>
                      let args =
                            \<lparr> arg_tokenID = tokenId pending,
                              arg_price = price pending,
                              arg_size = size' pending,
                              arg_side_buy = (side pending = ''buy''),
                              arg_tickSize = tickSizeStr,
                              arg_negRisk = negRisk \<rparr>;
                          calls = cs @ [CallGetTickSize (tokenId pending),
                                        CallGetNegRisk (tokenId pending),
                                        CallCreateAndPostOrder args]
                      in (case createAndPostOrder w args of
                            Inl e \<Rightarrow> (Inl e, calls)
                          | Inr response \<Rightarrow> (Inr (Posted response), calls)))))"

text \<open>The \<open>resume\<close> branch of \<open>execute\<close> (source lines 988-1089).\<close>

definition resume_body ::
  "crypto \<Rightarrow> world \<Rightarrow> PluginConfig \<Rightarrow> ToolContext \<Rightarrow> raw_record \<Rightarrow>
   (exn + tool_result) \<times> ext_call list" where
  "resume_body cr w config ctx rawParams =
     (if sandboxed ctx then (Inr (Failure sandboxed_error), [])
      else
        (case readStringParam_required rawParams ''token'' of
           Inl e \<Rightarrow> (Inl e, [])
         | Inr token \<Rightarrow>
             (case rawParams ''approve'' of
                RBool approve \<Rightarrow>
                  (case resolvePrivateKey (process_env w) config of
                     None \<Rightarrow> (Inr (Failure missing_private_key), [])
                   | Some privateKey \<Rightarrow>
                       (case decodeResumeToken cr token privateKey of
                          Inl e \<Rightarrow> (Inl e, [])
                        | Inr pending \<Rightarrow>
                            let now = Fin (of_int (Date_now w)) in
                            if truthy_number (expiresAtMs pending) \<and> js_gt now (expiresAtMs pending)
                            then (Inr (Failure expired), [])
                            else if truthy_string (sessionKey pending)
                                    \<and> truthy_string (ctx_sessionKey ctx)
                                    \<and> sessionKey pending \<noteq> ctx_sessionKey ctx
                            then (Inr (Failure session_mismatch), [])
                            else if \<not> approve then (Inr Cancelled, [])
                            else if \<not> tradeEnabled config then (Inr (Failure trading_disabled), [])
                            else if action pending \<noteq> ''place_order''
                            then (Inr (Failure unsupported), [])
                            else if (case allowedMarketSlugs config of
                                       Some l \<Rightarrow> l \<noteq> [] | None \<Rightarrow> False)
                                    \<and> \<not> isAllowedMarket config (slug (market pending))
                            then (Inr (Failure market_not_allowed), [])
                            else submit_order w config privateKey pending))
              | _ \<Rightarrow> (Inl (Error ''approve required (boolean)''), []))))"

text \<open>\<open>execute\<close> for the two actions of the approval protocol: the configuration is
  resolved when the tool is created, and an error thrown in a branch is caught and
  reported with type \<open>error\<close> (source lines 484-496 and 1095-1099).\<close>

definition catch :: "(exn + tool_result) \<times> ext_call list \<Rightarrow> tool_result \<times> ext_call list" where
  "catch r = (case r of (Inl e, cs) \<Rightarrow> (Failure (thrown e), cs) | (Inr v, cs) \<Rightarrow> (v, cs))"

definition execute_place_order ::
  "crypto \<Rightarrow> world \<Rightarrow> raw_record \<Rightarrow> ToolContext \<Rightarrow> raw_record \<Rightarrow> tool_result \<times> ext_call list" where
  "execute_place_order cr w pluginConfig ctx rawParams =
     catch (place_order_body cr w (resolvePluginConfig pluginConfig) ctx rawParams)"

definition execute_resume ::
  "crypto \<Rightarrow> world \<Rightarrow> raw_record \<Rightarrow> ToolContext \<Rightarrow> raw_record \<Rightarrow> tool_result \<times> ext_call list" where
  "execute_resume cr w pluginConfig ctx rawParams =
     catch (resume_body cr w (resolvePluginConfig pluginConfig) ctx rawParams)"

section \<open>Properties of the number model\<close>

lemma bitlen_powi_bounds:
  assumes "0 < a"
  shows "2 powi (bitlen a - 1) \<le> (of_int a :: rat)" "(of_int a :: rat) < 2 powi (bitlen a)"
proof -
  have "bitlen a \<noteq> 0" using assms by (simp add: bitlen_eq_zero_iff)
  then have p: "0 < bitlen a" using bitlen_nonneg[of a] by linarith
  from bitlen_bounds[OF assms] have "2 ^ nat (bitlen a - 1) \<le> a" "a < 2 ^ nat (bitlen a)" by auto
  then have "(of_int (2 ^ nat (bitlen a - 1)) :: rat) \<le> of_int a" "(of_int a :: rat) < of_int (2 ^ nat (bitlen a))"
    by (simp_all only: of_int_le_iff of_int_less_iff)
  then show "2 powi (bitlen a - 1) \<le> (of_int a :: rat)" "(of_int a :: rat) < 2 powi (bitlen a)"
    using p by (simp_all add: power_int_def)
qed

lemma powi_less_iff: "(2::rat) powi m < 2 powi n \<longleftrightarrow> m < n"
proof
  assume "(2::rat) powi m < 2 powi n"
  show "m < n"
  proof (rule ccontr)
    assume "\<not> m < n"
    then have "n \<le> m" by simp
    then have "(2::rat) powi n \<le> 2 powi m" by (intro power_int_increasing) simp_all
    with \<open>(2::rat) powi m < 2 powi n\<close> show False by simp
  qed
next
  assume "m < n"
  then show "(2::rat) powi m < 2 powi n" by (intro power_int_strict_increasing) simp_all
qed

lemma powi_le_iff: "(2::rat) powi m \<le> 2 powi n \<longleftrightarrow> m \<le> n"
  using powi_less_iff[of n m] by (simp add: not_less [symmetric])

lemma ilog2_bounds:
  assumes "0 < x"
  shows "2 powi (ilog2 x) \<le> x \<and> x < 2 powi (ilog2 x + 1)"
proof -
  obtain a b where q: "quotient_of x = (a, b)" by (cases "quotient_of x")
  have b: "0 < b" using q quotient_of_denom_pos by blast
  have x: "x = of_int a / of_int b" using q quotient_of_div by blast
  have a: "0 < a" using assms x b by (simp add: zero_less_divide_iff)
  define la where "la = bitlen a"
  define lb where "lb = bitlen b"
  note la = bitlen_powi_bounds[OF a, folded la_def]
  note lb = bitlen_powi_bounds[OF b, folded lb_def]
  have bpos: "0 < (of_int b :: rat)" using b by simp
  have xb: "x * of_int b = of_int a" using x bpos by simp
  have "x * of_int b < 2 powi (la - lb + 1) * 2 powi (lb - 1)"
    using la(2) by (simp add: xb flip: power_int_add)
  also have "\<dots> \<le> 2 powi (la - lb + 1) * of_int b"
    using lb(1) by (intro mult_left_mono) simp_all
  finally have up: "x < 2 powi (la - lb + 1)"
    using bpos by simp
  have "2 powi (la - lb - 1) * (of_int b :: rat) \<le> 2 powi (la - lb - 1) * 2 powi lb"
    using lb(2) by (intro mult_left_mono) simp_all
  also have "\<dots> = 2 powi (la - 1)" by (simp flip: power_int_add)
  also have "\<dots> \<le> x * of_int b" using la(1) xb by simp
  finally have lo: "2 powi (la - lb - 1) \<le> x" using bpos by simp
  show ?thesis
    using up lo by (simp add: ilog2_def q la_def lb_def Let_def)
qed

lemma ilog2_unique:
  assumes "0 < x" "2 powi e \<le> x" "x < 2 powi (e + 1)"
  shows "ilog2 x = e"
proof -
  from ilog2_bounds[OF assms(1)] have b: "2 powi (ilog2 x) \<le> x" "x < 2 powi (ilog2 x + 1)" by auto
  have "2 powi e < (2::rat) powi (ilog2 x + 1)" using assms(2) b(2) by linarith
  then have 1: "e < ilog2 x + 1" by (simp add: powi_less_iff)
  have "2 powi (ilog2 x) < (2::rat) powi (e + 1)" using assms(3) b(1) by linarith
  then have 2: "ilog2 x < e + 1" by (simp add: powi_less_iff)
  show ?thesis using 1 2 by linarith
qed


lemma rhe_of_int: "round_half_even (of_int N) = N"
  by (simp add: round_half_even_def)

lemma rhe_bounds: "\<lfloor>z\<rfloor> \<le> round_half_even z" "round_half_even z \<le> \<lfloor>z\<rfloor> + 1"
  by (simp_all add: round_half_even_def Let_def)

lemma rhe_nonneg: "0 \<le> z \<Longrightarrow> 0 \<le> round_half_even z"
  using rhe_bounds(1)[of z] by (smt (verit) zero_le_floor)

lemma rhe_le: assumes "z \<le> of_int N" shows "round_half_even z \<le> N"
proof (cases "z = of_int N")
  case True then show ?thesis by (simp add: rhe_of_int)
next
  case False
  then have "z < of_int N" using assms by simp
  then have "\<lfloor>z\<rfloor> < N" by (simp add: floor_less_iff)
  then show ?thesis using rhe_bounds(2)[of z] by linarith
qed

lemma fl_unfold:
  assumes "x \<noteq> 0" "2 powi E \<le> \<bar>x\<bar>" "\<bar>x\<bar> < 2 powi (E + 1)"
  shows "fl x =
     (let e = max E (- 1022); q = 2 powi (e - 52);
          r = of_int (round_half_even (\<bar>x\<bar> / q)) * q
      in if double_limit \<le> r then (if 0 < x then PosInf else NegInf) else Fin (sgn x * r))"
proof -
  have "ilog2 \<bar>x\<bar> = E" using assms by (intro ilog2_unique) simp_all
  then show ?thesis using assms(1) by (simp add: fl_def)
qed

lemma fl_mantissa_le:
  assumes "\<bar>x\<bar> < 2 powi (E + 1)" "E \<le> e"
  shows "round_half_even (\<bar>x\<bar> / 2 powi (e - 52)) \<le> 2 ^ 53"
proof -
  have "\<bar>x\<bar> < 2 powi (e + 1)"
    using assms(1) power_int_increasing[of "E + 1" "e + 1" "2::rat"] assms(2) by simp
  also have "\<dots> = 2 ^ 53 * 2 powi (e - 52)"
    using power_int_add[of "2::rat" 53 "e - 52"] by (simp add: add.commute)
  finally have "\<bar>x\<bar> / 2 powi (e - 52) < 2 ^ 53"
    by (simp add: pos_divide_less_eq)
  then have "\<bar>x\<bar> / 2 powi (e - 52) \<le> of_int (2 ^ 53)" by simp
  then show ?thesis by (rule rhe_le)
qed


lemma double_limit_pos: "0 < double_limit"
  unfolding double_limit_def by (rule zero_less_power_int) simp

lemma is_double_0: "is_double 0"
  unfolding is_double_def using double_limit_pos by (intro conjI exI[of _ 0]) simp_all

lemma fl_double:
  assumes "is_double x"
  shows "fl x = Fin x"
proof (cases "x = 0")
  case True then show ?thesis by (simp add: fl_def)
next
  case False
  from assms obtain m k where x: "x = of_int m * 2 powi k" and m: "\<bar>m\<bar> < 2 ^ 53"
    and k: "- 1074 \<le> k" and lim: "\<bar>x\<bar> < double_limit"
    unfolding is_double_def by blast
  define E where "E = ilog2 \<bar>x\<bar>"
  define e where "e = max E (- 1022)"
  have xpos: "0 < \<bar>x\<bar>" using False by simp
  have Eb: "2 powi E \<le> \<bar>x\<bar>" "\<bar>x\<bar> < 2 powi (E + 1)"
    using ilog2_bounds[OF xpos] by (simp_all add: E_def)
  have ax: "\<bar>x\<bar> = of_int \<bar>m\<bar> * 2 powi k" by (simp add: x abs_mult)
  have "of_int \<bar>m\<bar> < (2::rat) ^ 53" using m by (metis of_int_less_iff of_int_numeral of_int_power)
  then have "\<bar>x\<bar> < 2 ^ 53 * 2 powi k" unfolding ax by (intro mult_strict_right_mono) simp_all
  also have "\<dots> = 2 powi (k + 53)" using power_int_add[of "2::rat" 53 k] by (simp add: add.commute)
  finally have "2 powi E < (2::rat) powi (k + 53)" using Eb by linarith
  then have "E < k + 53" by (simp add: powi_less_iff)
  then have ke: "e - 52 \<le> k" using k by (simp add: e_def)
  define j where "j = nat (k - (e - 52))"
  have kj: "k = (e - 52) + int j" using ke by (simp add: j_def)
  have "\<bar>x\<bar> / 2 powi (e - 52) = of_int \<bar>m\<bar> * 2 ^ j"
    unfolding ax kj by (simp add: power_int_add)
  also have "\<dots> = of_int (\<bar>m\<bar> * 2 ^ j)" by simp
  finally have "round_half_even (\<bar>x\<bar> / 2 powi (e - 52)) = \<bar>m\<bar> * 2 ^ j"
    by (simp only: rhe_of_int)
  then have r: "of_int (round_half_even (\<bar>x\<bar> / 2 powi (e - 52))) * 2 powi (e - 52) = \<bar>x\<bar>"
    unfolding ax kj by (simp add: power_int_add)
  have "fl x = Fin (sgn x * \<bar>x\<bar>)"
    using lim r by (simp add: fl_unfold[OF False Eb(1) Eb(2)] e_def[symmetric] Let_def)
  then show ?thesis by (simp add: sgn_mult_abs)
qed


lemma fl_is_double:
  assumes "fl x = Fin y"
  shows "is_double y"
proof (cases "x = 0")
  case True then show ?thesis using assms by (auto simp: fl_def is_double_0)
next
  case False
  define E where "E = ilog2 \<bar>x\<bar>"
  define e where "e = max E (- 1022)"
  define n where "n = round_half_even (\<bar>x\<bar> / 2 powi (e - 52))"
  have xpos: "0 < \<bar>x\<bar>" using False by simp
  have Eb: "2 powi E \<le> \<bar>x\<bar>" "\<bar>x\<bar> < 2 powi (E + 1)"
    using ilog2_bounds[OF xpos] by (simp_all add: E_def)
  have fl: "fl x = (if double_limit \<le> of_int n * 2 powi (e - 52) then (if 0 < x then PosInf else NegInf)
                  else Fin (sgn x * (of_int n * 2 powi (e - 52))))"
    by (simp add: fl_unfold[OF False Eb] e_def[symmetric] n_def[symmetric] Let_def)
  have lim: "of_int n * 2 powi (e - 52) < double_limit"
    and y: "y = sgn x * (of_int n * 2 powi (e - 52))"
    using assms unfolding fl by (auto split: if_splits)
  have n0: "0 \<le> n" unfolding n_def by (intro rhe_nonneg) simp
  have n53: "n \<le> 2 ^ 53" unfolding n_def by (rule fl_mantissa_le[OF Eb(2)]) (simp add: e_def)
  have e: "- 1022 \<le> e" by (simp add: e_def)
  have ay: "\<bar>y\<bar> = of_int n * 2 powi (e - 52)"
    using n0 False by (simp add: y abs_mult)
  have sg: "sgn x = of_int (sgn (if 0 < x then 1 else - 1 :: int))"
    using False by (simp add: sgn_if)
  define s :: int where "s = (if 0 < x then 1 else - 1)"
  have ys: "y = of_int (s * n) * 2 powi (e - 52)"
    using False by (simp add: y s_def sgn_if)
  have sabs: "\<bar>s * n\<bar> = n" using n0 by (simp add: s_def abs_mult)
  show ?thesis
  proof (cases "n = 2 ^ 53")
    case False
    then have "\<bar>s * n\<bar> < 2 ^ 53" using n53 sabs by simp
    then show ?thesis
      unfolding is_double_def using ys e lim ay
      by (intro conjI exI[of _ "s * n"] exI[of _ "e - 52"]) simp_all
  next
    case True
    have "y = of_int (s * 2 ^ 52) * 2 powi (e - 51)"
      using power_int_add[of "2::rat" 1 "e - 52"] by (simp add: ys True)
    moreover have "\<bar>s * 2 ^ 52\<bar> < (2::int) ^ 53" by (simp add: s_def)
    ultimately show ?thesis
      unfolding is_double_def using e lim ay
      by (intro conjI exI[of _ "s * 2 ^ 52"] exI[of _ "e - 51"]) simp_all
  qed
qed


lemma double_limit_ge1: "1 \<le> double_limit"
  unfolding double_limit_def using power_int_increasing[of 0 1024 "2::rat"] by simp

lemma round_diff_is_double:
  assumes "is_double q"
  shows "is_double (of_int \<lfloor>q + 1 / 2\<rfloor> - q)"
proof -
  from assms obtain m k where q: "q = of_int m * 2 powi k" and m: "\<bar>m\<bar> < 2 ^ 53"
    and k: "- 1074 \<le> k"
    unfolding is_double_def by blast
  define R where "R = \<lfloor>q + 1 / 2\<rfloor>"
  define d where "d = of_int R - q"
  have "of_int R \<le> q + 1 / 2" "q + 1 / 2 < of_int R + 1"
    unfolding R_def by linarith+
  then have dabs: "\<bar>d\<bar> \<le> 1 / 2" unfolding d_def by linarith
  then have lim: "\<bar>d\<bar> < double_limit" using double_limit_ge1 by linarith
  consider "0 \<le> k" | "- 53 \<le> k" "k < 0" | "k < - 53" by linarith
  then have "\<exists>M e. d = of_int M * 2 powi e \<and> \<bar>M\<bar> < 2 ^ 53 \<and> - 1074 \<le> e"
  proof cases
    case 1
    then have "q = of_int (m * 2 ^ nat k)" by (simp add: q power_int_def)
    moreover have "\<lfloor>(1::rat) / 2\<rfloor> = 0" by (rule floor_unique) simp_all
    ultimately have "d = 0" unfolding d_def R_def by simp
    then show ?thesis by (intro exI[of _ 0]) simp
  next
    case 2
    define j where "j = nat (- k)"
    have kj: "k = - int j" and j: "1 \<le> j" "j \<le> 53" using 2 by (simp_all add: j_def)
    have qj: "q * 2 ^ j = of_int m" by (simp add: q kj power_int_minus field_simps)
    define M where "M = R * 2 ^ j - m"
    have dM: "d * 2 ^ j = of_int M" by (simp add: d_def M_def algebra_simps qj)
    then have dk: "d = of_int M * 2 powi k" by (simp add: kj power_int_minus field_simps)
    have "\<bar>of_int M :: rat\<bar> = \<bar>d\<bar> * 2 ^ j" by (simp add: dM[symmetric] abs_mult)
    also have "\<dots> \<le> 1 / 2 * 2 ^ j" using dabs by (intro mult_right_mono) simp_all
    also have "\<dots> = 2 ^ (j - 1)" using j(1) by (cases j) simp_all
    also have "\<dots> \<le> 2 ^ 52" using j(2) by (intro power_increasing) simp_all
    finally have "(of_int \<bar>M\<bar> :: rat) \<le> of_int (2 ^ 52)" by simp
    then have "\<bar>M\<bar> \<le> 2 ^ 52" by (simp only: of_int_le_iff)
    then have "\<bar>M\<bar> < 2 ^ 53" by simp
    then show ?thesis using dk 2(1) by (intro exI[of _ M] exI[of _ k]) simp
  next
    case 3
    have "of_int \<bar>m\<bar> < (2::rat) ^ 53" using m by (metis of_int_less_iff of_int_numeral of_int_power)
    then have "\<bar>q\<bar> < 2 ^ 53 * 2 powi k" unfolding q abs_mult by simp
    also have "\<dots> = 2 powi (k + 53)" using power_int_add[of "2::rat" 53 k] by (simp add: add.commute)
    also have "\<dots> \<le> 2 powi (- 1)" using 3 by (intro power_int_increasing) simp_all
    finally have "\<bar>q\<bar> < 1 / 2" by (simp add: power_int_minus)
    then have "R = 0" unfolding R_def by (intro floor_unique) simp_all
    then have "d = of_int (- m) * 2 powi k" by (simp add: d_def q)
    then show ?thesis using m k by (intro exI[of _ "- m"] exI[of _ k]) simp
  qed
  then show ?thesis using lim unfolding is_double_def d_def R_def by blast
qed

lemma double_grid:
  assumes "is_double d" "2 powi g \<le> \<bar>d\<bar>"
  shows "\<exists>N::int. d * 2 powi (52 - g) = of_int N"
proof -
  from assms obtain m k where d: "d = of_int m * 2 powi k" and m: "\<bar>m\<bar> < 2 ^ 53"
    unfolding is_double_def by blast
  have "of_int \<bar>m\<bar> < (2::rat) ^ 53" using m by (metis of_int_less_iff of_int_numeral of_int_power)
  then have "\<bar>d\<bar> < 2 ^ 53 * 2 powi k" unfolding d abs_mult by simp
  also have "\<dots> = 2 powi (k + 53)" using power_int_add[of "2::rat" 53 k] by (simp add: add.commute)
  finally have "2 powi g < (2::rat) powi (k + 53)" using assms(2) by linarith
  then have "g < k + 53" by (simp add: powi_less_iff)
  then have "0 \<le> k + 52 - g" by simp
  then have "(2::rat) powi (k + 52 - g) = of_int (2 ^ nat (k + 52 - g))" by (simp add: power_int_def)
  moreover have "d * 2 powi (52 - g) = of_int m * 2 powi (k + 52 - g)"
    using power_int_add[of "2::rat" k "52 - g"] by (simp add: d algebra_simps)
  ultimately have "d * 2 powi (52 - g) = of_int (m * 2 ^ nat (k + 52 - g))" by simp
  then show ?thesis by blast
qed


lemma fl_eqI:
  assumes "x \<noteq> 0" "2 powi E \<le> \<bar>x\<bar>" "\<bar>x\<bar> < 2 powi (E + 1)" "- 1022 \<le> E" "E < 1023"
    and "round_half_even (\<bar>x\<bar> / 2 powi (E - 52)) = n"
  shows "fl x = Fin (sgn x * (of_int n * 2 powi (E - 52)))"
proof -
  have "n \<le> 2 ^ 53" using fl_mantissa_le[OF assms(3), of E] assms(6) by simp
  then have "(of_int n :: rat) \<le> of_int (2 ^ 53)" by (simp only: of_int_le_iff)
  then have "of_int n * 2 powi (E - 52) \<le> (2::rat) ^ 53 * 2 powi (E - 52)"
    by (intro mult_right_mono) simp_all
  also have "\<dots> = 2 powi (E + 1)" using power_int_add[of "2::rat" 53 "E - 52"] by (simp add: add.commute)
  also have "\<dots> < 2 powi 1024" using assms(5) by (intro power_int_strict_increasing) simp_all
  finally have "\<not> double_limit \<le> of_int n * 2 powi (E - 52)" by (simp add: double_limit_def)
  moreover have "max E (- 1022) = E" using assms(4) by simp
  ultimately show ?thesis
    using assms(6) by (simp add: fl_unfold[OF assms(1-3)] Let_def)
qed

lemma rhe_eqI:
  assumes "of_int n - 1 / 2 < z" "z < of_int n + 1 / 2"
  shows "round_half_even z = n"
proof (cases "of_int n \<le> z")
  case True
  then have "\<lfloor>z\<rfloor> = n" using assms(2) by (intro floor_unique) simp_all
  then show ?thesis using assms(2) by (simp add: round_half_even_def Let_def)
next
  case False
  then have "\<lfloor>z\<rfloor> = n - 1" using assms(1) by (intro floor_unique) simp_all
  then show ?thesis using assms(1) by (simp add: round_half_even_def Let_def)
qed

lemma fl_nearest:
  assumes "x \<noteq> 0" "2 powi E \<le> \<bar>x\<bar>" "\<bar>x\<bar> < 2 powi (E + 1)" "- 1022 \<le> E" "E < 1023"
    and "of_int n - 1 / 2 < \<bar>x\<bar> / 2 powi (E - 52)" "\<bar>x\<bar> / 2 powi (E - 52) < of_int n + 1 / 2"
  shows "fl x = Fin (sgn x * (of_int n * 2 powi (E - 52)))"
  using assms(1-5) by (rule fl_eqI) (rule rhe_eqI[OF assms(6,7)])

lemma fl_tick_001: "fl (1 / 100) = Fin (5764607523034235 / 2 ^ 59)"
  by (rule fl_nearest[where E = "- 7" and n = 5764607523034235, THEN trans]) simp_all

lemma fl_threshold: "fl (1 / 10 ^ 9) = Fin (4835703278458517 / 2 ^ 82)"
  by (rule fl_nearest[where E = "- 30" and n = 4835703278458517, THEN trans]) simp_all

lemma parseFloat_001: "parseFloat ''0.01'' = Fin (5764607523034235 / 2 ^ 59)"
  by (simp add: parseFloat_def trimStart_def is_space_def scan_decimal_def scan_exponent_def
      is_digit_def digits_val_def digit_val_def fl_tick_001)

lemma parseFloat_0: "parseFloat ''0'' = Fin 0"
  by (simp add: parseFloat_def trimStart_def is_space_def scan_decimal_def scan_exponent_def
      is_digit_def digits_val_def digit_val_def fl_def)


lemma isMultipleOfTick_guard:
  "\<not> (isFinite t \<and> js_gt t (Fin 0)) \<Longrightarrow> isMultipleOfTick v t"
  by (cases t) (auto simp: isMultipleOfTick_def isFinite_def js_gt_def js_le_def)

lemma js_div_Fin_is_double:
  assumes "js_div v (Fin b) = Fin q" "b \<noteq> 0"
  shows "is_double q"
  using assms by (cases v) (auto intro: fl_is_double split: if_splits)

lemma isMultipleOfTick_unfold:
  "isMultipleOfTick v t =
     (if \<not> isFinite t \<or> js_le t (Fin 0) then True
      else js_lt (Math_abs (js_sub (Math_round (js_div v t)) (js_div v t)))
             (Fin (4835703278458517 / 2 ^ 82)))"
  by (simp only: isMultipleOfTick_def fl_threshold Let_def)

lemma isMultipleOfTick_Fin:
  assumes "0 < b"
  shows "isMultipleOfTick v (Fin b) \<longleftrightarrow>
    (\<exists>q. js_div v (Fin b) = Fin q \<and> \<bar>of_int \<lfloor>q + 1 / 2\<rfloor> - q\<bar> < 4835703278458517 / 2 ^ 82)"
proof (cases "js_div v (Fin b)")
  case (Fin q)
  then have "is_double q" using assms by (intro js_div_Fin_is_double[of v b]) simp_all
  then have "fl (of_int \<lfloor>q + 1 / 2\<rfloor> - q) = Fin (of_int \<lfloor>q + 1 / 2\<rfloor> - q)"
    by (intro fl_double round_diff_is_double)
  then show ?thesis
    using assms Fin
    by (simp add: isMultipleOfTick_unfold isFinite_def js_le_def js_sub_def)
qed (use assms in \<open>simp_all add: isMultipleOfTick_unfold isFinite_def js_le_def js_sub_def\<close>)

lemma isMultipleOfTick_eval:
  assumes "t = Fin b" "0 < b" "v = Fin a" "fl (a / b) = Fin q"
  shows "isMultipleOfTick v t \<longleftrightarrow> \<bar>of_int \<lfloor>q + 1 / 2\<rfloor> - q\<bar> < 4835703278458517 / 2 ^ 82"
  using assms by (simp add: isMultipleOfTick_Fin)

lemma near_integer_iff:
  assumes "is_double q"
  shows "\<bar>of_int \<lfloor>q + 1 / 2\<rfloor> - q\<bar> < 4835703278458517 / 2 ^ 82
     \<longleftrightarrow> (\<exists>n::int. \<bar>q - of_int n\<bar> < 1 / 10 ^ 9)"
proof
  define d where "d = of_int \<lfloor>q + 1 / 2\<rfloor> - q"
  assume "\<bar>of_int \<lfloor>q + 1 / 2\<rfloor> - q\<bar> < 4835703278458517 / 2 ^ 82"
  then have lt: "\<bar>d\<bar> < 4835703278458517 / 2 ^ 82" by (simp add: d_def)
  have dd: "is_double d" unfolding d_def using assms by (rule round_diff_is_double)
  have "\<bar>d\<bar> < 1 / 10 ^ 9"
  proof (cases "2 powi (- 30) \<le> \<bar>d\<bar>")
    case False
    then have "\<bar>d\<bar> < 1 / 2 ^ 30" by (simp add: power_int_minus inverse_eq_divide)
    then show ?thesis by simp
  next
    case True
    from double_grid[OF dd True] obtain N :: int where N: "d * 2 powi 82 = of_int N" by auto
    then have dN: "d = of_int N / 2 ^ 82" by (simp add: field_simps)
    have "\<bar>of_int N :: rat\<bar> < 4835703278458517" using lt unfolding dN by (simp add: abs_divide)
    then have "(of_int \<bar>N\<bar> :: rat) < of_int 4835703278458517" by simp
    then have "\<bar>N\<bar> < 4835703278458517" by (simp only: of_int_less_iff)
    then have "\<bar>N\<bar> \<le> 4835703278458516" by simp
    then have "(of_int \<bar>N\<bar> :: rat) \<le> of_int 4835703278458516" by (simp only: of_int_le_iff)
    then have "\<bar>d\<bar> \<le> 4835703278458516 / 2 ^ 82" unfolding dN by (simp add: abs_divide field_simps)
    then show ?thesis by simp
  qed
  then have "\<bar>q - of_int \<lfloor>q + 1 / 2\<rfloor>\<bar> < 1 / 10 ^ 9" by (simp add: d_def abs_minus_commute)
  then show "\<exists>n::int. \<bar>q - of_int n\<bar> < 1 / 10 ^ 9" by blast
next
  assume "\<exists>n::int. \<bar>q - of_int n\<bar> < 1 / 10 ^ 9"
  then obtain n :: int where n: "\<bar>q - of_int n\<bar> < 1 / 10 ^ 9" by blast
  have "(1::rat) / 10 ^ 9 < 1 / 2" by simp
  with n have h: "\<bar>q - of_int n\<bar> < 1 / 2" by (rule less_trans)
  have "\<lfloor>q + 1 / 2\<rfloor> = n" using h by (intro floor_unique) linarith+
  then have "\<bar>of_int \<lfloor>q + 1 / 2\<rfloor> - q\<bar> < 1 / 10 ^ 9"
    using n by (simp only: abs_minus_commute)
  moreover have "(1::rat) / 10 ^ 9 < 4835703278458517 / 2 ^ 82" by simp
  ultimately show "\<bar>of_int \<lfloor>q + 1 / 2\<rfloor> - q\<bar> < 4835703278458517 / 2 ^ 82"
    by (rule less_trans)
qed

lemma fl_0615: "fl (615 / 1000) = Fin (5539427541665710 / 2 ^ 53)"
  by (rule fl_nearest[where E = "- 1" and n = 5539427541665710, THEN trans]) simp_all

lemma fl_061: "fl (61 / 100) = Fin (5494391545392005 / 2 ^ 53)"
  by (rule fl_nearest[where E = "- 1" and n = 5494391545392005, THEN trans]) simp_all

lemma div_0615: "fl (5539427541665710 / 2 ^ 53 / (5764607523034235 / 2 ^ 59)) = Fin (123 / 2)"
  by (rule fl_nearest[where E = 5 and n = 8655355533852672, THEN trans]) simp_all

lemma div_061: "fl (5494391545392005 / 2 ^ 53 / (5764607523034235 / 2 ^ 59)) = Fin 61"
  by (rule fl_nearest[where E = 5 and n = 8584986789675008, THEN trans]) simp_all

lemma tick_examples:
  "\<not> isMultipleOfTick (fl (615 / 1000)) (parseFloat ''0.01'')"
  "isMultipleOfTick (fl (61 / 100)) (parseFloat ''0.01'')"
  "isMultipleOfTick x (parseFloat ''0'')"
proof -
  show "\<not> isMultipleOfTick (fl (615 / 1000)) (parseFloat ''0.01'')"
    using isMultipleOfTick_eval[OF parseFloat_001 _ fl_0615 div_0615] by simp
  have "\<lfloor>(123::rat) / 2\<rfloor> = 61" by (rule floor_unique) simp_all
  then show "isMultipleOfTick (fl (61 / 100)) (parseFloat ''0.01'')"
    using isMultipleOfTick_eval[OF parseFloat_001 _ fl_061 div_061] by simp
  show "isMultipleOfTick x (parseFloat ''0'')"
    by (simp add: parseFloat_0 isMultipleOfTick_def js_le_def)
qed

section \<open>Claims\<close>

text \<open>
  Claim C9. The tick-alignment predicate \<open>isMultipleOfTick\<close> is true whenever the tick size
  is not a finite positive number; for a finite positive tick size it is true exactly when
  the quotient \<open>price / tickSize\<close> (the binary64 quotient) is a finite number within
  \<open>10^-9\<close> of an integer. With the literals read as binary64 values and the tick size
  parsed by \<open>Number.parseFloat\<close> as in the resume path: 0.615 is not aligned to "0.01",
  0.61 is aligned to "0.01", and every number is aligned to the tick "0".
\<close>

theorem isMultipleOfTick_spec:
  "(\<not> (isFinite t \<and> js_gt t (Fin 0)) \<longrightarrow> isMultipleOfTick v t) \<and>
   (isFinite t \<and> js_gt t (Fin 0) \<longrightarrow>
      (isMultipleOfTick v t \<longleftrightarrow>
         (\<exists>q. js_div v t = Fin q \<and> (\<exists>n::int. \<bar>q - of_int n\<bar> < 1 / 10 ^ 9)))) \<and>
   \<not> isMultipleOfTick (fl (615 / 1000)) (parseFloat ''0.01'') \<and>
   isMultipleOfTick (fl (61 / 100)) (parseFloat ''0.01'') \<and>
   isMultipleOfTick x (parseFloat ''0'')"
proof (intro conjI impI)
  assume "\<not> (isFinite t \<and> js_gt t (Fin 0))"
  then show "isMultipleOfTick v t" by (rule isMultipleOfTick_guard)
next
  assume "isFinite t \<and> js_gt t (Fin 0)"
  then obtain b where t: "t = Fin b" and b: "0 < b"
    by (cases t) (auto simp: isFinite_def js_gt_def)
  have "(\<exists>q. js_div v (Fin b) = Fin q \<and> \<bar>of_int \<lfloor>q + 1 / 2\<rfloor> - q\<bar> < 4835703278458517 / 2 ^ 82)
      \<longleftrightarrow> (\<exists>q. js_div v (Fin b) = Fin q \<and> (\<exists>n::int. \<bar>q - of_int n\<bar> < 1 / 10 ^ 9))"
    using b near_integer_iff js_div_Fin_is_double[of v b] by (metis less_irrefl)
  then show "isMultipleOfTick v t \<longleftrightarrow>
      (\<exists>q. js_div v t = Fin q \<and> (\<exists>n::int. \<bar>q - of_int n\<bar> < 1 / 10 ^ 9))"
    unfolding t isMultipleOfTick_Fin[OF b] .
qed (rule tick_examples)+

theorem isMultipleOfTick_spec_witness:
  "\<not> (isFinite NaN \<and> js_gt NaN (Fin 0)) \<and> isMultipleOfTick (Fin (1 / 2)) NaN \<and>
   isFinite (parseFloat ''0.01'') \<and> js_gt (parseFloat ''0.01'') (Fin 0) \<and>
   (\<exists>q. js_div (fl (61 / 100)) (parseFloat ''0.01'') = Fin q \<and>
        (\<exists>n::int. \<bar>q - of_int n\<bar> < 1 / 10 ^ 9))"
proof -
  have a: "\<not> (isFinite NaN \<and> js_gt NaN (Fin 0))" by (simp add: isFinite_def)
  have b: "isFinite (parseFloat ''0.01'') \<and> js_gt (parseFloat ''0.01'') (Fin 0)"
    by (simp add: parseFloat_001 isFinite_def js_gt_def)
  show ?thesis
    using a b isMultipleOfTick_spec[of NaN "Fin (1 / 2)"]
      isMultipleOfTick_spec[of "parseFloat ''0.01''" "fl (61 / 100)"]
    by blast
qed

end
